theory Spec2Isabelle
  imports Complex_Main
begin

section \<open>Values exchanged with the remote API\<close>

text \<open>
  The client of \<^verbatim>\<open>src/index.js\<close> parses every successful response with
  \<^verbatim>\<open>response.json()\<close>, so a page payload is an arbitrary JSON value. Objects are kept
  as association lists in source order.
\<close>

datatype json =
    JNull
  | JBool bool
  | JNum real
  | JStr string
  | JArr "json list"
  | JObj "(string \<times> json) list"

text \<open>
  A JavaScript exception object: the constructor's name and the \<^verbatim>\<open>message\<close> property,
  which is all the handlers of the client ever read.
\<close>

datatype js_error = JsError (err_name: string) (message: string)

text \<open>
  One physical HTTP exchange as the client sees it: either \<^verbatim>\<open>fetch\<close> rejects (a
  network-level failure), or it resolves to a response with a status code and a body.
  The body is the outcome of \<^verbatim>\<open>response.json()\<close>, which itself can throw.
\<close>

datatype http_outcome =
    Rejected js_error
  | Response nat "js_error + json"

text \<open>
  The transport stands for network and server together. Its answer may depend on the URL
  and on how many requests were issued before this one. The request headers are fixed
  per client and therefore not a separate argument.
\<close>

type_synonym transport = "string \<Rightarrow> nat \<Rightarrow> http_outcome"

text \<open>The source of \<^verbatim>\<open>Math.random()\<close>: the value of the n-th draw.\<close>

type_synonym random_source = "nat \<Rightarrow> real"

section \<open>The client object and the observable world\<close>

record client =
  baseURL :: string
  apiKey :: string
  maxRetries :: int
  initialDelay :: real
  requestsPerSecond :: real
  lastRequestTime :: real
  pageSize :: int

text \<open>The \<^verbatim>\<open>options\<close> argument of the constructor; \<open>None\<close> is an absent property.\<close>

record options =
  opt_maxRetries :: "int option"
  opt_initialDelay :: "real option"
  opt_requestsPerSecond :: "real option"
  opt_pageSize :: "int option"

text \<open>
  \<^verbatim>\<open>x || d\<close> on a numeric option: an absent property and the number zero are both
  falsy and give the default.
\<close>

definition or_default :: "'a::zero option \<Rightarrow> 'a \<Rightarrow> 'a" where
  "or_default x d = (case x of None \<Rightarrow> d | Some v \<Rightarrow> if v = 0 then d else v)"

definition new_client :: "string \<Rightarrow> string \<Rightarrow> options \<Rightarrow> client" where
  "new_client url key opts =
     \<lparr> baseURL = url,
       apiKey = key,
       maxRetries = or_default (opt_maxRetries opts) 5,
       initialDelay = or_default (opt_initialDelay opts) 1000,
       requestsPerSecond = or_default (opt_requestsPerSecond opts) 2,
       lastRequestTime = 0,
       pageSize = or_default (opt_pageSize opts) 10 \<rparr>"

definition no_options :: options where
  "no_options =
     \<lparr> opt_maxRetries = None, opt_initialDelay = None,
       opt_requestsPerSecond = None, opt_pageSize = None \<rparr>"

text \<open>
  Who called \<^verbatim>\<open>sleep\<close>. The source's \<^verbatim>\<open>sleep(ms)\<close> has no such argument; the tag
  only records the call site, so that backoff waits can be told from throttle waits.
\<close>

datatype waiter = Throttle | Backoff

text \<open>
  Everything outside the client object that the code reads or changes: the clock behind
  \<^verbatim>\<open>Date.now()\<close> (idealised: time passes only while sleeping), the URLs requested so
  far, the calls of \<^verbatim>\<open>sleep\<close> so far, and the number of random draws consumed.
  Console output is not modelled.
\<close>

record world =
  clock :: real
  requests :: "string list"
  slept :: "(waiter \<times> real) list"
  draws :: nat

type_synonym state = "client \<times> world"

definition initial_world :: world where
  "initial_world = \<lparr> clock = 0, requests = [], slept = [], draws = 0 \<rparr>"

definition backoff_waits :: "state \<Rightarrow> real list" where
  "backoff_waits s = map snd (filter (\<lambda>p. fst p = Backoff) (slept (snd s)))"

section \<open>Strings\<close>

text \<open>Decimal rendering of a number inside a template literal.\<close>

definition digit :: "nat \<Rightarrow> char" where
  "digit n = ''0123456789'' ! n"

fun dec :: "nat \<Rightarrow> string" where
  "dec n = (if n < 10 then [digit n] else dec (n div 10) @ [digit (n mod 10)])"

declare dec.simps [simp del]

definition dec_int :: "int \<Rightarrow> string" where
  "dec_int i = (if i < 0 then CHR ''-'' # dec (nat (- i)) else dec (nat i))"

fun starts_with :: "string \<Rightarrow> string \<Rightarrow> bool" where
  "starts_with s [] = True"
| "starts_with [] (c # cs) = False"
| "starts_with (x # xs) (c # cs) = (x = c \<and> starts_with xs cs)"

text \<open>\<^verbatim>\<open>s.includes(t)\<close>: \<open>t\<close> occurs somewhere in \<open>s\<close>.\<close>

fun js_includes :: "string \<Rightarrow> string \<Rightarrow> bool" where
  "js_includes [] t = starts_with [] t"
| "js_includes (x # xs) t = (starts_with (x # xs) t \<or> js_includes xs t)"

section \<open>Sleeping, throttling and backoff\<close>

definition sleep :: "waiter \<Rightarrow> real \<Rightarrow> state \<Rightarrow> state" where
  "sleep who ms s =
     (fst s, (snd s)\<lparr> clock := clock (snd s) + ms, slept := slept (snd s) @ [(who, ms)] \<rparr>)"

text \<open>
  \<^verbatim>\<open>getBackoffDelay(attempt)\<close> with the result \<open>u\<close> of its call of \<^verbatim>\<open>Math.random()\<close>
  made explicit. Arithmetic is exact (real numbers) rather than IEEE doubles.
\<close>

definition getBackoffDelay :: "client \<Rightarrow> real \<Rightarrow> nat \<Rightarrow> real" where
  "getBackoffDelay c u attempt =
     (let exponDelay = initialDelay c * 2 ^ attempt;
          jitter = u * 1000
      in min (exponDelay + jitter) 30000)"

text \<open>
  The three lines shared by every retry path of \<^verbatim>\<open>fetchWithRetries\<close>: compute the delay
  (one random draw) and sleep for it.
\<close>

definition backoff_wait :: "random_source \<Rightarrow> nat \<Rightarrow> state \<Rightarrow> state" where
  "backoff_wait rnd attempt s =
     (let delay = getBackoffDelay (fst s) (rnd (draws (snd s))) attempt;
          s1 = (fst s, (snd s)\<lparr> draws := draws (snd s) + 1 \<rparr>)
      in sleep Backoff delay s1)"

text \<open>
  \<^verbatim>\<open>throttle()\<close>. It cannot throw. The constructor never stores a zero
  \<^verbatim>\<open>requestsPerSecond\<close>, so the division is by a non-zero number for every client it
  builds.
\<close>

definition throttle :: "state \<Rightarrow> state" where
  "throttle s =
     (let minInterval = 1000 / requestsPerSecond (fst s);
          now = clock (snd s);
          timeSinceLastRequest = now - lastRequestTime (fst s);
          s1 = (if timeSinceLastRequest < minInterval
                then sleep Throttle (minInterval - timeSinceLastRequest) s
                else s)
      in ((fst s1)\<lparr> lastRequestTime := clock (snd s1) \<rparr>, snd s1))"

section \<open>The retrying fetcher\<close>

text \<open>
  Every retry path of \<^verbatim>\<open>fetchWithRetries\<close> ends in
  \<^verbatim>\<open>return this.fetchWithRetry(url, attempt + 1)\<close>. The class defines the methods
  \<^verbatim>\<open>fetchWithRetries\<close>, \<^verbatim>\<open>fetchAllPatients\<close>, \<^verbatim>\<open>getBackoffDelay\<close>,
  \<^verbatim>\<open>throttle\<close> and \<^verbatim>\<open>sleep\<close>, and none called \<^verbatim>\<open>fetchWithRetry\<close>: the property is
  \<^verbatim>\<open>undefined\<close> and calling it throws this \<^verbatim>\<open>TypeError\<close>.
\<close>

definition fetchWithRetry_not_a_function :: js_error where
  "fetchWithRetry_not_a_function =
     JsError ''TypeError'' ''this.fetchWithRetry is not a function''"

definition authentication_failed :: js_error where
  "authentication_failed = JsError ''Error'' ''Authentication failed. Check API key.''"

definition request_failed :: "nat \<Rightarrow> js_error" where
  "request_failed status = JsError ''Error'' (''Request failed with status '' @ dec status)"

definition response_ok :: "nat \<Rightarrow> bool" where
  "response_ok status = (200 \<le> status \<and> status \<le> 299)"

definition issue :: "string \<Rightarrow> state \<Rightarrow> state" where
  "issue url s = (fst s, (snd s)\<lparr> requests := requests (snd s) @ [url] \<rparr>)"

text \<open>
  The \<^verbatim>\<open>catch (error)\<close> block of \<^verbatim>\<open>fetchWithRetries\<close>. Its retry branch sleeps and
  then calls the missing method, whose \<^verbatim>\<open>TypeError\<close> leaves the function since it is
  thrown inside the handler.
\<close>

definition catch_block ::
  "random_source \<Rightarrow> nat \<Rightarrow> js_error \<Rightarrow> state \<Rightarrow> (js_error + json) \<times> state" where
  "catch_block rnd attempt error s =
     (if js_includes (message error) ''Authentication failed'' then (Inl error, s)
      else if int attempt < maxRetries (fst s)
        then (Inl fetchWithRetry_not_a_function, backoff_wait rnd attempt s)
      else (Inl error, s))"

text \<open>
  \<^verbatim>\<open>fetchWithRetries(url, attempt)\<close>. Everything thrown inside the \<^verbatim>\<open>try\<close> block,
  including the \<^verbatim>\<open>TypeError\<close> of the two retry branches, goes through \<open>catch_block\<close>.
  Since the retry call never reaches a function body, the definition is not recursive.
\<close>

definition fetchWithRetries ::
  "transport \<Rightarrow> random_source \<Rightarrow> string \<Rightarrow> nat \<Rightarrow> state \<Rightarrow> (js_error + json) \<times> state" where
  "fetchWithRetries net rnd url attempt s =
     (let s1 = throttle s;
          s2 = issue url s1
      in case net url (length (requests (snd s1))) of
           Rejected error \<Rightarrow> catch_block rnd attempt error s2
         | Response status body \<Rightarrow>
             if status = 429
               then catch_block rnd attempt fetchWithRetry_not_a_function
                      (backoff_wait rnd attempt s2)
             else if status \<ge> 500 \<and> int attempt < maxRetries (fst s2)
               then catch_block rnd attempt fetchWithRetry_not_a_function
                      (backoff_wait rnd attempt s2)
             else if status = 401 \<or> status = 403
               then catch_block rnd attempt authentication_failed s2
             else if \<not> response_ok status
               then catch_block rnd attempt (request_failed status) s2
             else (case body of
                     Inl error \<Rightarrow> catch_block rnd attempt error s2
                   | Inr data \<Rightarrow> (Inr data, s2)))"

section \<open>The paginator\<close>

text \<open>JavaScript truthiness of a parsed JSON value, as used by \<^verbatim>\<open>data || []\<close>.\<close>

fun truthy :: "json \<Rightarrow> bool" where
  "truthy JNull = False"
| "truthy (JBool b) = b"
| "truthy (JNum x) = (x \<noteq> 0)"
| "truthy (JStr s) = (s \<noteq> [])"
| "truthy (JArr xs) = True"
| "truthy (JObj kvs) = True"

text \<open>
  The property read \<^verbatim>\<open>data.hasNext\<close>; \<open>None\<close> is \<^verbatim>\<open>undefined\<close>. Only objects carry
  properties that come from the payload, and of a repeated key the parser keeps the last
  occurrence. The read is reached only when \<open>data\<close> is a non-empty array, so the
  \<^verbatim>\<open>TypeError\<close> of reading a property of \<^verbatim>\<open>null\<close> cannot occur.
\<close>

fun hasNext :: "json \<Rightarrow> json option" where
  "hasNext (JObj kvs) = map_of (rev kvs) ''hasNext''"
| "hasNext v = None"

text \<open>The test \<^verbatim>\<open>Array.isArray(v) && v.length > 0\<close>.\<close>

definition nonempty_array :: "json \<Rightarrow> bool" where
  "nonempty_array v = (case v of JArr (p # ps) \<Rightarrow> True | _ \<Rightarrow> False)"

definition page_url :: "client \<Rightarrow> nat \<Rightarrow> string" where
  "page_url c page =
     baseURL c @ ''?page='' @ dec page @ ''&limit='' @ dec_int (pageSize c)"

text \<open>The local variables of \<^verbatim>\<open>fetchAllPatients\<close>.\<close>

record locals =
  allPatients :: "json list"
  page :: nat
  moreData :: bool

text \<open>
  How one pass through the body of the \<^verbatim>\<open>while\<close> loop ends: by reaching the end of
  the body, by \<^verbatim>\<open>break\<close>, or by \<^verbatim>\<open>return\<close> of a record list.
\<close>

datatype completion = Normal | Break | Return "json list"

text \<open>
  The body of the loop: the \<^verbatim>\<open>try\<close> block, the \<^verbatim>\<open>catch\<close> block that handles whatever
  \<^verbatim>\<open>fetchWithRetries\<close> throws, and after them the statement
  \<^verbatim>\<open>return allPatients\<close>, which stands inside the loop.
\<close>

definition loop_body ::
  "transport \<Rightarrow> random_source \<Rightarrow> locals \<times> state \<Rightarrow> completion \<times> locals \<times> state" where
  "loop_body net rnd ls =
     (let l = fst ls; s = snd ls;
          url = page_url (fst s) (page l);
          (r, s1) = fetchWithRetries net rnd url 0 s
      in case r of
           Inl error \<Rightarrow>
             (let l1 = l\<lparr> moreData := False \<rparr>
              in (Return (allPatients l1), l1, s1))
         | Inr data \<Rightarrow>
             (let patients = (if truthy data then data else JArr [])
              in case patients of
                   JArr (p # ps) \<Rightarrow>
                     (let l1 = l\<lparr> allPatients := allPatients l @ (p # ps) \<rparr>;
                          l2 = l1\<lparr> moreData := (int (length (p # ps)) = pageSize (fst s1)) \<rparr>;
                          l3 = (if hasNext data = Some (JBool False)
                                then l2\<lparr> moreData := False \<rparr> else l2);
                          l4 = l3\<lparr> page := page l3 + 1 \<rparr>
                      in (Return (allPatients l4), l4, s1))
                 | _ \<Rightarrow> (Break, l\<lparr> moreData := False \<rparr>, s1)))"

text \<open>
  \<^verbatim>\<open>while (moreData) { ... }\<close>. \<open>None\<close> means that the loop was left without a
  \<^verbatim>\<open>return\<close>. The loop terminates because no pass through the body reaches its end.
\<close>

function while_loop ::
  "transport \<Rightarrow> random_source \<Rightarrow> locals \<times> state \<Rightarrow> json list option \<times> locals \<times> state" where
  "while_loop net rnd ls =
     (if moreData (fst ls)
      then (case loop_body net rnd ls of
              (Normal, ls1) \<Rightarrow> while_loop net rnd ls1
            | (Break, ls1) \<Rightarrow> (None, ls1)
            | (Return v, ls1) \<Rightarrow> (Some v, ls1))
      else (None, ls))"
  by pat_completeness auto
termination
  by (relation "{}")
    (auto simp: loop_body_def Let_def split: prod.splits sum.splits json.splits list.splits
       if_splits)

declare while_loop.simps [simp del]

text \<open>
  What the caller of \<^verbatim>\<open>fetchAllPatients\<close> receives: a function that ends without
  \<^verbatim>\<open>return\<close> yields \<^verbatim>\<open>undefined\<close>.
\<close>

datatype return_value = Undefined | Patients "json list"

text \<open>
  \<^verbatim>\<open>fetchAllPatients()\<close>. The left summand is an exception leaving the function; the
  body has no statement outside the loop's \<^verbatim>\<open>try\<close>/\<^verbatim>\<open>catch\<close> that could throw.
\<close>

definition fetchAllPatients ::
  "transport \<Rightarrow> random_source \<Rightarrow> state \<Rightarrow> (js_error + return_value) \<times> state" where
  "fetchAllPatients net rnd s =
     (let l0 = \<lparr> allPatients = [], page = 1, moreData = True \<rparr>;
          (r, l, s1) = while_loop net rnd (l0, s)
      in case r of
           Some v \<Rightarrow> (Inr (Patients v), s1)
         | None \<Rightarrow> (Inr Undefined, s1))"

section \<open>Risk scoring\<close>

text \<open>
  A JavaScript number: \<^verbatim>\<open>NaN\<close>, the two infinities, or a finite value (taken as a
  real number; the rounding of doubles plays no part in comparisons with constants).
\<close>

datatype js_number = NaN | NegInfinity | Finite real | PosInfinity

text \<open>
  An argument of the scoring functions: \<^verbatim>\<open>null\<close>, \<^verbatim>\<open>undefined\<close> or a number.
\<close>

datatype js_value = JsNull | JsUndefined | JsNumber js_number

text \<open>The conversion that \<^verbatim>\<open><\<close> and \<^verbatim>\<open>>=\<close> apply to a non-numeric operand.\<close>

fun to_number :: "js_value \<Rightarrow> js_number" where
  "to_number JsNull = Finite 0"
| "to_number JsUndefined = NaN"
| "to_number (JsNumber x) = x"

text \<open>\<^verbatim>\<open>x < y\<close> on numbers: false as soon as one side is \<^verbatim>\<open>NaN\<close>.\<close>

fun js_less :: "js_number \<Rightarrow> js_number \<Rightarrow> bool" where
  "js_less NaN y = False"
| "js_less x NaN = False"
| "js_less NegInfinity NegInfinity = False"
| "js_less NegInfinity y = True"
| "js_less PosInfinity y = False"
| "js_less (Finite a) NegInfinity = False"
| "js_less (Finite a) (Finite b) = (a < b)"
| "js_less (Finite a) PosInfinity = True"

text \<open>
  \<^verbatim>\<open>x >= y\<close> on numbers: false as soon as one side is \<^verbatim>\<open>NaN\<close>, otherwise the
  negation of \<^verbatim>\<open>x < y\<close>.
\<close>

definition js_greater_eq :: "js_number \<Rightarrow> js_number \<Rightarrow> bool" where
  "js_greater_eq x y = (x \<noteq> NaN \<and> y \<noteq> NaN \<and> \<not> js_less x y)"

text \<open>
  \<^verbatim>\<open>RiskAssessment.calculateBloodPressureRisk(systolic, diastolic)\<close>. The result
  \<open>None\<close> is the \<^verbatim>\<open>undefined\<close> of falling off the end of the chain of \<^verbatim>\<open>if\<close>
  statements, whose last member is itself a conditional \<^verbatim>\<open>return\<close>.
\<close>

definition calculateBloodPressureRisk :: "js_value \<Rightarrow> js_value \<Rightarrow> nat option" where
  "calculateBloodPressureRisk systolic diastolic =
     (if systolic = JsNull \<or> diastolic = JsNull then Some 0
      else let sy = to_number systolic; di = to_number diastolic in
        if js_less sy (Finite 120) \<and> js_less di (Finite 80) then Some 0
        else if js_less sy (Finite 130) \<and> js_less di (Finite 80) then Some 1
        else if js_less sy (Finite 140) \<or> js_less di (Finite 90) then Some 2
        else if js_greater_eq sy (Finite 140) \<or> js_greater_eq di (Finite 90) then Some 3
        else None)"

section \<open>Test fixtures\<close>

text \<open>
  Concrete inputs for the scenarios of the specification: a client built with default
  options, a fresh world, a random source without jitter, and simulated transports.
\<close>

definition demo_client :: client where
  "demo_client = new_client ''https://api.example.test/patients'' ''secret'' no_options"

definition start :: state where
  "start = (demo_client, initial_world)"

definition no_jitter :: random_source where
  "no_jitter = (\<lambda>n. 0)"

definition patient :: "nat \<Rightarrow> json" where
  "patient n = JObj [(''patient_id'', JNum (real n))]"

definition records :: "nat \<Rightarrow> nat \<Rightarrow> json list" where
  "records a b = map patient [a..<b]"

text \<open>Pages of 10, 10 and 7 records; every further page is empty.\<close>

definition three_pages :: transport where
  "three_pages url n =
     (if url = page_url demo_client 1 then Response 200 (Inr (JArr (records 1 11)))
      else if url = page_url demo_client 2 then Response 200 (Inr (JArr (records 11 21)))
      else if url = page_url demo_client 3 then Response 200 (Inr (JArr (records 21 28)))
      else Response 200 (Inr (JArr [])))"

text \<open>Status 429 for the first two requests, then success.\<close>

definition twice_429 :: transport where
  "twice_429 url n =
     (if n < 2 then Response 429 (Inr JNull) else Response 200 (Inr (JArr (records 1 4))))"

definition always_status :: "nat \<Rightarrow> transport" where
  "always_status status url n = Response status (Inr JNull)"

text \<open>Page 1 answers with ten records; every later request fails at network level.\<close>

definition page_2_fails :: transport where
  "page_2_fails url n =
     (if url = page_url demo_client 1 then Response 200 (Inr (JArr (records 1 11)))
      else Rejected (JsError ''TypeError'' ''fetch failed''))"

text \<open>Page 1 is an object holding ten records and \<^verbatim>\<open>hasNext: false\<close>.\<close>

definition wrapped_page :: json where
  "wrapped_page = JObj [(''data'', JArr (records 1 11)), (''hasNext'', JBool False)]"

definition wrapped_last_page :: transport where
  "wrapped_last_page url n = Response 200 (Inr wrapped_page)"

text \<open>Every page is the empty array.\<close>

definition empty_collection :: transport where
  "empty_collection url n = Response 200 (Inr (JArr []))"

section \<open>Basic facts about the state\<close>

lemma requests_sleep [simp]: "requests (snd (sleep who ms s)) = requests (snd s)"
  by (simp add: sleep_def)

lemma client_sleep [simp]: "fst (sleep who ms s) = fst s"
  by (simp add: sleep_def)

lemma requests_throttle [simp]: "requests (snd (throttle s)) = requests (snd s)"
  by (simp add: throttle_def Let_def)

lemma maxRetries_throttle [simp]: "maxRetries (fst (throttle s)) = maxRetries (fst s)"
  by (simp add: throttle_def Let_def)

lemma pageSize_throttle [simp]: "pageSize (fst (throttle s)) = pageSize (fst s)"
  by (simp add: throttle_def Let_def)

lemma draws_throttle [simp]: "draws (snd (throttle s)) = draws (snd s)"
  by (simp add: throttle_def Let_def sleep_def)

lemma backoff_waits_throttle [simp]: "backoff_waits (throttle s) = backoff_waits s"
  by (simp add: throttle_def Let_def sleep_def backoff_waits_def)

lemma requests_issue [simp]: "requests (snd (issue url s)) = requests (snd s) @ [url]"
  by (simp add: issue_def)

lemma client_issue [simp]: "fst (issue url s) = fst s"
  by (simp add: issue_def)

lemma draws_issue [simp]: "draws (snd (issue url s)) = draws (snd s)"
  by (simp add: issue_def)

lemma backoff_waits_issue [simp]: "backoff_waits (issue url s) = backoff_waits s"
  by (simp add: issue_def backoff_waits_def)

lemma requests_backoff_wait [simp]:
  "requests (snd (backoff_wait rnd attempt s)) = requests (snd s)"
  by (simp add: backoff_wait_def Let_def)

lemma client_backoff_wait [simp]: "fst (backoff_wait rnd attempt s) = fst s"
  by (simp add: backoff_wait_def Let_def)

lemma draws_backoff_wait [simp]:
  "draws (snd (backoff_wait rnd attempt s)) = Suc (draws (snd s))"
  by (simp add: backoff_wait_def Let_def sleep_def)

lemma backoff_waits_backoff_wait [simp]:
  "backoff_waits (backoff_wait rnd attempt s) =
     backoff_waits s @ [getBackoffDelay (fst s) (rnd (draws (snd s))) attempt]"
  by (simp add: backoff_wait_def Let_def sleep_def backoff_waits_def)

section \<open>Error messages and the authentication test\<close>

lemma no_A_starts_with:
  "CHR ''A'' \<notin> set s \<Longrightarrow> \<not> starts_with s ''Authentication failed''"
  by (cases s) auto

lemma no_A_not_includes:
  "CHR ''A'' \<notin> set s \<Longrightarrow> \<not> js_includes s ''Authentication failed''"
  by (induction s) auto

lemma digit_not_A: "n < 10 \<Longrightarrow> digit n \<noteq> CHR ''A''"
proof -
  assume "n < 10"
  then have "n \<in> {0, 1, 2, 3, 4, 5, 6, 7, 8, 9}" by auto
  then show ?thesis by (auto simp: digit_def)
qed

lemma dec_no_A: "CHR ''A'' \<notin> set (dec n)"
proof (induction n rule: dec.induct)
  case (1 n)
  show ?case
  proof (cases "n < 10")
    case True
    then show ?thesis using digit_not_A [of n] by (simp add: dec.simps [of n])
  next
    case False
    moreover have "digit (n mod 10) \<noteq> CHR ''A''" by (rule digit_not_A) simp
    ultimately show ?thesis using "1.IH" by (simp add: dec.simps [of n])
  qed
qed

lemma request_failed_not_auth:
  "\<not> js_includes (message (request_failed status)) ''Authentication failed''"
  by (rule no_A_not_includes) (simp add: request_failed_def dec_no_A)

lemma not_a_function_not_auth:
  "\<not> js_includes (message fetchWithRetry_not_a_function) ''Authentication failed''"
  by (rule no_A_not_includes) (simp add: fetchWithRetry_not_a_function_def)

lemma authentication_failed_is_auth:
  "js_includes (message authentication_failed) ''Authentication failed''"
  by (simp add: authentication_failed_def)

section \<open>What one call of the fetcher does\<close>

lemma catch_block_requests [simp]:
  "requests (snd (snd (catch_block rnd attempt error s))) = requests (snd s)"
  by (simp add: catch_block_def)

lemma fetchWithRetries_requests:
  "requests (snd (snd (fetchWithRetries net rnd url attempt s))) = requests (snd s) @ [url]"
  by (simp add: fetchWithRetries_def Let_def split: http_outcome.splits sum.splits)

lemma fetchWithRetries_ok:
  assumes "net url (length (requests (snd s))) = Response status (Inr data)"
    and "response_ok status"
  shows "fetchWithRetries net rnd url attempt s = (Inr data, issue url (throttle s))"
  using assms by (auto simp: fetchWithRetries_def Let_def response_ok_def)

lemma fetchWithRetries_auth:
  assumes "net url (length (requests (snd s))) = Response status body"
    and "status = 401 \<or> status = 403"
  shows "fetchWithRetries net rnd url attempt s =
           (Inl authentication_failed, issue url (throttle s))"
  using assms authentication_failed_is_auth
  by (auto simp: fetchWithRetries_def Let_def catch_block_def)

lemma fetchWithRetries_429:
  assumes "net url (length (requests (snd s))) = Response 429 body"
    and "int attempt < maxRetries (fst s)"
  shows "fetchWithRetries net rnd url attempt s =
           (Inl fetchWithRetry_not_a_function,
            backoff_wait rnd attempt (backoff_wait rnd attempt (issue url (throttle s))))"
  using assms not_a_function_not_auth
  by (simp add: fetchWithRetries_def Let_def catch_block_def)

lemma fetchWithRetries_5xx:
  assumes "net url (length (requests (snd s))) = Response status body"
    and "status \<ge> 500" and "int attempt < maxRetries (fst s)"
  shows "fetchWithRetries net rnd url attempt s =
           (Inl fetchWithRetry_not_a_function,
            backoff_wait rnd attempt (backoff_wait rnd attempt (issue url (throttle s))))"
  using assms not_a_function_not_auth
  by (simp add: fetchWithRetries_def Let_def catch_block_def)

lemma fetchWithRetries_rejected:
  assumes "net url (length (requests (snd s))) = Rejected e"
    and "\<not> js_includes (message e) ''Authentication failed''"
    and "int attempt < maxRetries (fst s)"
  shows "fetchWithRetries net rnd url attempt s =
           (Inl fetchWithRetry_not_a_function, backoff_wait rnd attempt (issue url (throttle s)))"
  using assms by (simp add: fetchWithRetries_def Let_def catch_block_def)

lemma catch_block_auth:
  "catch_block rnd attempt authentication_failed s = (Inl authentication_failed, s)"
  using authentication_failed_is_auth by (simp add: catch_block_def)

lemma getBackoffDelay_throttle [simp]:
  "getBackoffDelay (fst (throttle s)) = getBackoffDelay (fst s)"
  by (simp add: fun_eq_iff getBackoffDelay_def throttle_def Let_def)

section \<open>What one call of the paginator does\<close>

lemma while_loop_error:
  assumes "moreData l"
    and "fetchWithRetries net rnd (page_url (fst s) (page l)) 0 s = (Inl e, s1)"
  shows "while_loop net rnd (l, s) = (Some (allPatients l), l\<lparr> moreData := False \<rparr>, s1)"
  using assms by (simp add: while_loop.simps [of net rnd "(l, s)"] loop_body_def Let_def)

lemma while_loop_records:
  assumes "moreData l"
    and "fetchWithRetries net rnd (page_url (fst s) (page l)) 0 s = (Inr (JArr (p # ps)), s1)"
  shows "while_loop net rnd (l, s) =
           (Some (allPatients l @ p # ps),
            l\<lparr> allPatients := allPatients l @ p # ps,
               moreData := (int (length (p # ps)) = pageSize (fst s1)),
               page := page l + 1 \<rparr>,
            s1)"
  using assms by (simp add: while_loop.simps [of net rnd "(l, s)"] loop_body_def Let_def)

lemma while_loop_break:
  assumes "moreData l"
    and "fetchWithRetries net rnd (page_url (fst s) (page l)) 0 s = (Inr data, s1)"
    and "\<not> nonempty_array data"
  shows "while_loop net rnd (l, s) = (None, l\<lparr> moreData := False \<rparr>, s1)"
  using assms
  by (cases data)
    (auto simp: while_loop.simps [of net rnd "(l, s)"] loop_body_def Let_def nonempty_array_def
      split: list.splits)

lemma fetchAllPatients_error:
  assumes "fetchWithRetries net rnd (page_url (fst s) 1) 0 s = (Inl e, s1)"
  shows "fetchAllPatients net rnd s = (Inr (Patients []), s1)"
  using while_loop_error [of "\<lparr> allPatients = [], page = 1, moreData = True \<rparr>" net rnd s e s1]
    assms
  by (simp add: fetchAllPatients_def)

lemma fetchAllPatients_records:
  assumes "fetchWithRetries net rnd (page_url (fst s) 1) 0 s = (Inr (JArr (p # ps)), s1)"
  shows "fetchAllPatients net rnd s = (Inr (Patients (p # ps)), s1)"
  using while_loop_records [of "\<lparr> allPatients = [], page = 1, moreData = True \<rparr>" net rnd s p ps s1]
    assms
  by (simp add: fetchAllPatients_def)

lemma fetchAllPatients_break:
  assumes "fetchWithRetries net rnd (page_url (fst s) 1) 0 s = (Inr data, s1)"
    and "\<not> nonempty_array data"
  shows "fetchAllPatients net rnd s = (Inr Undefined, s1)"
  using while_loop_break [of "\<lparr> allPatients = [], page = 1, moreData = True \<rparr>" net rnd s data s1]
    assms
  by (simp add: fetchAllPatients_def)

lemma fetchAllPatients_cases:
  "fetchAllPatients net rnd s =
     (case fetchWithRetries net rnd (page_url (fst s) 1) 0 s of
        (Inl e, s1) \<Rightarrow> (Inr (Patients []), s1)
      | (Inr data, s1) \<Rightarrow>
          (if nonempty_array data then (Inr (Patients (case data of JArr xs \<Rightarrow> xs | _ \<Rightarrow> [])), s1)
           else (Inr Undefined, s1)))"
proof -
  obtain r s1 where f: "fetchWithRetries net rnd (page_url (fst s) 1) 0 s = (r, s1)"
    by (cases "fetchWithRetries net rnd (page_url (fst s) 1) 0 s")
  show ?thesis
  proof (cases r)
    case (Inl e)
    with f show ?thesis by (simp add: fetchAllPatients_error)
  next
    case (Inr data)
    show ?thesis
    proof (cases "nonempty_array data")
      case True
      then obtain p ps where "data = JArr (p # ps)"
        by (auto simp: nonempty_array_def split: json.splits list.splits)
      with f Inr True show ?thesis by (simp add: fetchAllPatients_records)
    next
      case False
      with f Inr show ?thesis by (simp add: fetchAllPatients_break)
    qed
  qed
qed

lemma fetchAllPatients_one_request:
  "requests (snd (snd (fetchAllPatients net rnd s))) = requests (snd s) @ [page_url (fst s) 1]"
proof -
  obtain r s1 where f: "fetchWithRetries net rnd (page_url (fst s) 1) 0 s = (r, s1)"
    by (cases "fetchWithRetries net rnd (page_url (fst s) 1) 0 s")
  then have "snd (snd (fetchAllPatients net rnd s)) = snd s1"
    by (simp add: fetchAllPatients_cases split: sum.splits)
  moreover have "requests (snd s1) = requests (snd s) @ [page_url (fst s) 1]"
    using fetchWithRetries_requests [of net rnd "page_url (fst s) 1" 0 s] f by simp
  ultimately show ?thesis by simp
qed

section \<open>Facts about the fixtures\<close>

lemma demo_client_fields:
  "maxRetries demo_client = 5" "pageSize demo_client = 10" "initialDelay demo_client = 1000"
  "requestsPerSecond demo_client = 2"
  by (simp_all add: demo_client_def new_client_def no_options_def or_default_def)

lemma start_fields: "fst start = demo_client" "requests (snd start) = []"
  "slept (snd start) = []" "draws (snd start) = 0"
  by (simp_all add: start_def initial_world_def)

lemma length_records: "length (records a b) = b - a"
  by (simp add: records_def)

lemma backoff_waits_start: "backoff_waits start = []"
  by (simp add: backoff_waits_def start_fields)

lemma records_1_11: "records (Suc 0) 11 = patient (Suc 0) # records 2 11"
  by (simp add: records_def upt_conv_Cons numeral_2_eq_2)

lemma page_url_demo: "page_url demo_client (Suc 0) = ''https://api.example.test/patients?page=1&limit=10''"
  by (simp add: page_url_def demo_client_def new_client_def no_options_def or_default_def
      dec_int_def dec.simps digit_def)

lemma page_url_demo_2: "page_url demo_client 2 = ''https://api.example.test/patients?page=2&limit=10''"
  by (simp add: page_url_def demo_client_def new_client_def no_options_def or_default_def
      dec_int_def dec.simps digit_def)

lemma page_urls_differ: "page_url demo_client 2 \<noteq> page_url demo_client (Suc 0)"
  by (simp add: page_url_demo page_url_demo_2)

lemma fetch_page_1_of_page_2_fails:
  "fetchWithRetries page_2_fails no_jitter (page_url (fst start) 1) 0 start =
     (Inr (JArr (patient 1 # records 2 11)), issue (page_url (fst start) 1) (throttle start))"
  by (rule fetchWithRetries_ok [where status = 200])
    (simp_all add: page_2_fails_def response_ok_def start_fields records_1_11)

lemma fetch_page_2_of_page_2_fails:
  "fetchWithRetries page_2_fails no_jitter (page_url (fst start) 2) 0 start =
     (Inl fetchWithRetry_not_a_function,
      backoff_wait no_jitter 0 (issue (page_url (fst start) 2) (throttle start)))"
  by (rule fetchWithRetries_rejected [where e = "JsError ''TypeError'' ''fetch failed''"])
    (simp_all add: page_2_fails_def start_fields page_urls_differ demo_client_fields)

lemma fetch_always_401:
  "fetchWithRetries (always_status 401) no_jitter url 0 start =
     (Inl authentication_failed, issue url (throttle start))"
  by (rule fetchWithRetries_auth [where status = 401 and body = "Inr JNull"])
    (simp_all add: always_status_def)

section \<open>Facts about the risk score\<close>

lemma js_less_NaN_right [simp]: "\<not> js_less x NaN"
  by (cases x) simp_all

lemma calculateBloodPressureRisk_undefined_iff:
  "calculateBloodPressureRisk systolic diastolic = None \<longleftrightarrow>
     systolic \<noteq> JsNull \<and> diastolic \<noteq> JsNull
     \<and> to_number systolic = NaN \<and> to_number diastolic = NaN"
  by (auto simp: calculateBloodPressureRisk_def Let_def js_greater_eq_def)

lemma calculateBloodPressureRisk_values:
  "calculateBloodPressureRisk systolic diastolic \<in> {None, Some 0, Some 1, Some 2, Some 3}"
  by (simp add: calculateBloodPressureRisk_def Let_def)

section \<open>The claims\<close>

text \<open>
  C6. A response with status 401 or 403 makes \<^verbatim>\<open>fetchWithRetries\<close> raise the
  authentication error at once, whatever the attempt number: exactly one request is
  issued, no backoff delay is computed and no backoff wait happens. The \<^verbatim>\<open>catch\<close>
  block hands an authentication error on unchanged instead of retrying.
\<close>

theorem fetchWithRetries_auth_fails_fast:
  assumes "net url (length (requests (snd s))) = Response status body"
    and "status = 401 \<or> status = 403"
  shows "fst (fetchWithRetries net rnd url attempt s) = Inl authentication_failed
       \<and> requests (snd (snd (fetchWithRetries net rnd url attempt s))) = requests (snd s) @ [url]
       \<and> backoff_waits (snd (fetchWithRetries net rnd url attempt s)) = backoff_waits s
       \<and> draws (snd (snd (fetchWithRetries net rnd url attempt s))) = draws (snd s)
       \<and> catch_block rnd attempt authentication_failed s1 = (Inl authentication_failed, s1)"
  using assms
    fetchWithRetries_auth [where net = net and url = url and s = s and status = status
      and body = body and rnd = rnd and attempt = attempt]
  by (simp add: catch_block_auth)

theorem fetchWithRetries_auth_fails_fast_witness:
  "always_status 401 ''u'' (length (requests (snd start))) = Response 401 (Inr JNull)
   \<and> fst (fetchWithRetries (always_status 401) no_jitter ''u'' 0 start) = Inl authentication_failed
   \<and> requests (snd (snd (fetchWithRetries (always_status 401) no_jitter ''u'' 0 start))) = [''u'']
   \<and> backoff_waits (snd (fetchWithRetries (always_status 401) no_jitter ''u'' 0 start)) = []"
proof -
  have h: "always_status 401 ''u'' (length (requests (snd start))) = Response 401 (Inr JNull)"
    by (simp add: always_status_def)
  show ?thesis
    using h
      fetchWithRetries_auth_fails_fast [where net = "always_status 401" and url = "''u''"
        and s = start and status = 401 and body = "Inr JNull" and rnd = no_jitter
        and attempt = 0]
    by (simp add: start_fields backoff_waits_start)
qed

text \<open>
  C8. For a random draw \<open>u\<close> in \<open>[0, 1)\<close>, that is a jitter \<open>u * 1000\<close> in \<open>[0, 1000)\<close>,
  \<^verbatim>\<open>getBackoffDelay(attempt)\<close> is the minimum of \<open>initialDelay * 2 ^ attempt + jitter\<close>
  and 30000. Hence it lies between \<open>initialDelay * 2 ^ attempt\<close> and
  \<open>initialDelay * 2 ^ attempt + 1000\<close>, both bounds capped at 30000, and never exceeds
  30000.
\<close>

theorem getBackoffDelay_bounds:
  assumes "0 \<le> u" and "u < 1"
  shows "getBackoffDelay c u attempt = min (initialDelay c * 2 ^ attempt + u * 1000) 30000
       \<and> min (initialDelay c * 2 ^ attempt) 30000 \<le> getBackoffDelay c u attempt
       \<and> getBackoffDelay c u attempt \<le> min (initialDelay c * 2 ^ attempt + 1000) 30000
       \<and> getBackoffDelay c u attempt \<le> 30000"
  using assms by (simp add: getBackoffDelay_def Let_def min_def)

theorem getBackoffDelay_bounds_witness:
  "(0::real) \<le> 1 / 2 \<and> (1::real) / 2 < 1
   \<and> getBackoffDelay demo_client (1 / 2) 3 = 8500
   \<and> min (initialDelay demo_client * 2 ^ 3) 30000 \<le> getBackoffDelay demo_client (1 / 2) 3
   \<and> getBackoffDelay demo_client (1 / 2) 3 \<le> min (initialDelay demo_client * 2 ^ 3 + 1000) 30000"
  using getBackoffDelay_bounds [of "1 / 2" demo_client 3]
  by (simp add: demo_client_fields)

text \<open>
  C10, as the code has it. \<^verbatim>\<open>calculateBloodPressureRisk\<close> returns 0 when either
  argument is \<^verbatim>\<open>null\<close>. It falls off the end of the chain and returns \<^verbatim>\<open>undefined\<close>
  exactly when neither argument is \<^verbatim>\<open>null\<close> and both are \<^verbatim>\<open>NaN\<close> as numbers. For
  every pair of numbers that are not both \<^verbatim>\<open>NaN\<close> the result is one of 0, 1, 2, 3. With
  a diastolic value below 90 the result is at most 2, whatever the systolic number.
\<close>

theorem calculateBloodPressureRisk_range:
  "(systolic = JsNull \<or> diastolic = JsNull
      \<longrightarrow> calculateBloodPressureRisk systolic diastolic = Some 0)
   \<and> (calculateBloodPressureRisk systolic diastolic = None \<longleftrightarrow>
        systolic \<noteq> JsNull \<and> diastolic \<noteq> JsNull
        \<and> to_number systolic = NaN \<and> to_number diastolic = NaN)
   \<and> (x \<noteq> NaN \<or> y \<noteq> NaN
      \<longrightarrow> calculateBloodPressureRisk (JsNumber x) (JsNumber y) \<in> {Some 0, Some 1, Some 2, Some 3})
   \<and> (js_less y (Finite 90)
      \<longrightarrow> (\<exists>k. calculateBloodPressureRisk (JsNumber x) (JsNumber y) = Some k \<and> k \<le> 2))"
proof (intro conjI impI)
  assume "systolic = JsNull \<or> diastolic = JsNull"
  then show "calculateBloodPressureRisk systolic diastolic = Some 0"
    by (auto simp: calculateBloodPressureRisk_def)
next
  show "calculateBloodPressureRisk systolic diastolic = None \<longleftrightarrow>
        systolic \<noteq> JsNull \<and> diastolic \<noteq> JsNull
        \<and> to_number systolic = NaN \<and> to_number diastolic = NaN"
    by (rule calculateBloodPressureRisk_undefined_iff)
next
  assume "x \<noteq> NaN \<or> y \<noteq> NaN"
  then have "calculateBloodPressureRisk (JsNumber x) (JsNumber y) \<noteq> None"
    by (auto simp: calculateBloodPressureRisk_undefined_iff)
  then show "calculateBloodPressureRisk (JsNumber x) (JsNumber y) \<in> {Some 0, Some 1, Some 2, Some 3}"
    using calculateBloodPressureRisk_values [of "JsNumber x" "JsNumber y"] by auto
next
  assume "js_less y (Finite 90)"
  then show "\<exists>k. calculateBloodPressureRisk (JsNumber x) (JsNumber y) = Some k \<and> k \<le> 2"
    by (simp add: calculateBloodPressureRisk_def Let_def)
qed

theorem calculateBloodPressureRisk_range_witness:
  "calculateBloodPressureRisk JsNull (JsNumber (Finite 95)) = Some 0
   \<and> js_less (Finite 85) (Finite 90)
   \<and> calculateBloodPressureRisk (JsNumber (Finite 150)) (JsNumber (Finite 85)) = Some 2
   \<and> calculateBloodPressureRisk (JsNumber NaN) (JsNumber (Finite 85)) = Some 2
   \<and> calculateBloodPressureRisk (JsNumber PosInfinity) (JsNumber (Finite 95)) = Some 3
   \<and> calculateBloodPressureRisk (JsNumber (Finite (239 / 2))) (JsNumber (Finite (159 / 2))) = Some 0"
  using calculateBloodPressureRisk_range [of JsNull "JsNumber (Finite 95)" "Finite 150" "Finite 85"]
    calculateBloodPressureRisk_range [of JsNull JsNull NaN "Finite 85"]
    calculateBloodPressureRisk_range [of JsNull JsNull PosInfinity "Finite 95"]
  by (simp add: calculateBloodPressureRisk_def js_greater_eq_def)

text \<open>
  C10, as stated for every pair of numeric inputs, fails: at \<^verbatim>\<open>(NaN, NaN)\<close> all four
  tests of the chain are false and the function returns \<^verbatim>\<open>undefined\<close>, which is none
  of 0, 1, 2, 3.
\<close>

theorem calculateBloodPressureRisk_NaN_falls_through:
  "calculateBloodPressureRisk (JsNumber NaN) (JsNumber NaN) = None
   \<and> calculateBloodPressureRisk (JsNumber NaN) (JsNumber NaN) \<notin> {Some 0, Some 1, Some 2, Some 3}"
  by (simp add: calculateBloodPressureRisk_def js_greater_eq_def)

text \<open>
  C9. If the first page fetch yields an empty array or a payload that is not an array,
  \<^verbatim>\<open>fetchAllPatients\<close> leaves its loop by \<^verbatim>\<open>break\<close> and its caller receives
  \<^verbatim>\<open>undefined\<close>, which is not the empty accumulator.
\<close>

theorem fetchAllPatients_empty_page_undefined:
  assumes "fetchWithRetries net rnd (page_url (fst s) 1) 0 s = (Inr data, s1)"
    and "data = JArr [] \<or> (\<forall>xs. data \<noteq> JArr xs)"
  shows "fetchAllPatients net rnd s = (Inr Undefined, s1)
       \<and> fst (fetchAllPatients net rnd s) \<noteq> Inr (Patients [])
       \<and> while_loop net rnd (\<lparr> allPatients = [], page = 1, moreData = True \<rparr>, s) =
           (None, \<lparr> allPatients = [], page = 1, moreData = False \<rparr>, s1)"
proof -
  from assms(2) have n: "\<not> nonempty_array data"
    by (auto simp: nonempty_array_def split: json.splits list.splits)
  have "fetchAllPatients net rnd s = (Inr Undefined, s1)"
    using assms(1) n by (rule fetchAllPatients_break)
  moreover have "while_loop net rnd (\<lparr> allPatients = [], page = 1, moreData = True \<rparr>, s) =
      (None, \<lparr> allPatients = [], page = 1, moreData = False \<rparr>, s1)"
    using while_loop_break [of "\<lparr> allPatients = [], page = 1, moreData = True \<rparr>" net rnd s data s1]
      assms(1) n by simp
  ultimately show ?thesis by simp
qed

theorem fetchAllPatients_empty_page_undefined_witness:
  "fetchWithRetries empty_collection no_jitter (page_url (fst start) 1) 0 start =
     (Inr (JArr []), issue (page_url (fst start) 1) (throttle start))
   \<and> fetchAllPatients empty_collection no_jitter start =
     (Inr Undefined, issue (page_url (fst start) 1) (throttle start))"
proof -
  have h: "fetchWithRetries empty_collection no_jitter (page_url (fst start) 1) 0 start =
      (Inr (JArr []), issue (page_url (fst start) 1) (throttle start))"
    by (rule fetchWithRetries_ok [where status = 200])
      (simp_all add: empty_collection_def response_ok_def)
  show ?thesis
    using h
      fetchAllPatients_empty_page_undefined [where net = empty_collection and rnd = no_jitter
        and s = start and data = "JArr []"
        and ?s1.0 = "issue (page_url (fst start) 1) (throttle start)"]
    by simp
qed

text \<open>
  C4. No exception leaves \<^verbatim>\<open>fetchAllPatients\<close>. Whenever the fetch of a page raises an
  error, the loop stops at once and returns the records accumulated so far; for the first
  page that is the empty list. If the fetch of page 1 yields a non-empty array, the
  result is exactly the records of page 1, whatever the transport would answer to a
  request for page 2 (none is issued).
\<close>

theorem fetchAllPatients_error_gives_partial_result:
  "(\<forall>e. fst (fetchAllPatients net rnd s) \<noteq> Inl e)
   \<and> (moreData l \<and> fetchWithRetries net rnd (page_url (fst s) (page l)) 0 s = (Inl e, s1)
        \<longrightarrow> while_loop net rnd (l, s) = (Some (allPatients l), l\<lparr> moreData := False \<rparr>, s1))
   \<and> (fetchWithRetries net rnd (page_url (fst s) 1) 0 s = (Inl e, s1)
        \<longrightarrow> fetchAllPatients net rnd s = (Inr (Patients []), s1))
   \<and> (fetchWithRetries net rnd (page_url (fst s) 1) 0 s = (Inr (JArr (p # ps)), s1)
        \<longrightarrow> fetchAllPatients net rnd s = (Inr (Patients (p # ps)), s1)
          \<and> requests (snd s1) = requests (snd s) @ [page_url (fst s) 1])"
proof (intro conjI allI impI)
  fix e'
  show "fst (fetchAllPatients net rnd s) \<noteq> Inl e'"
    by (simp add: fetchAllPatients_cases split: prod.splits sum.splits)
next
  assume "moreData l \<and> fetchWithRetries net rnd (page_url (fst s) (page l)) 0 s = (Inl e, s1)"
  then show "while_loop net rnd (l, s) = (Some (allPatients l), l\<lparr> moreData := False \<rparr>, s1)"
    by (simp add: while_loop_error)
next
  assume "fetchWithRetries net rnd (page_url (fst s) 1) 0 s = (Inl e, s1)"
  then show "fetchAllPatients net rnd s = (Inr (Patients []), s1)"
    by (rule fetchAllPatients_error)
next
  assume a: "fetchWithRetries net rnd (page_url (fst s) 1) 0 s = (Inr (JArr (p # ps)), s1)"
  then show "fetchAllPatients net rnd s = (Inr (Patients (p # ps)), s1)"
    by (rule fetchAllPatients_records)
  show "requests (snd s1) = requests (snd s) @ [page_url (fst s) 1]"
    using fetchWithRetries_requests [of net rnd "page_url (fst s) 1" 0 s] a by simp
qed

theorem fetchAllPatients_error_gives_partial_result_witness:
  "fetchWithRetries page_2_fails no_jitter (page_url (fst start) 2) 0 start =
     (Inl fetchWithRetry_not_a_function,
      backoff_wait no_jitter 0 (issue (page_url (fst start) 2) (throttle start)))
   \<and> while_loop page_2_fails no_jitter
       (\<lparr> allPatients = records 1 11, page = 2, moreData = True \<rparr>, start) =
     (Some (records 1 11), \<lparr> allPatients = records 1 11, page = 2, moreData = False \<rparr>,
      backoff_wait no_jitter 0 (issue (page_url (fst start) 2) (throttle start)))
   \<and> fetchWithRetries (always_status 401) no_jitter (page_url (fst start) 1) 0 start =
     (Inl authentication_failed, issue (page_url (fst start) 1) (throttle start))
   \<and> fetchAllPatients (always_status 401) no_jitter start =
     (Inr (Patients []), issue (page_url (fst start) 1) (throttle start))
   \<and> fetchWithRetries page_2_fails no_jitter (page_url (fst start) 1) 0 start =
     (Inr (JArr (patient 1 # records 2 11)), issue (page_url (fst start) 1) (throttle start))
   \<and> fetchAllPatients page_2_fails no_jitter start =
     (Inr (Patients (records 1 11)), issue (page_url (fst start) 1) (throttle start))"
proof -
  note a = fetch_page_2_of_page_2_fails
  note b = fetch_always_401 [of "page_url (fst start) 1"]
  note c = fetch_page_1_of_page_2_fails
  have "while_loop page_2_fails no_jitter
       (\<lparr> allPatients = records 1 11, page = 2, moreData = True \<rparr>, start) =
     (Some (records 1 11), \<lparr> allPatients = records 1 11, page = 2, moreData = False \<rparr>,
      backoff_wait no_jitter 0 (issue (page_url (fst start) 2) (throttle start)))"
    using a
      fetchAllPatients_error_gives_partial_result [where net = page_2_fails and rnd = no_jitter
        and s = start and l = "\<lparr> allPatients = records 1 11, page = 2, moreData = True \<rparr>"
        and e = fetchWithRetry_not_a_function
        and ?s1.0 = "backoff_wait no_jitter 0 (issue (page_url (fst start) 2) (throttle start))"
        and p = JNull and ps = "[]"]
    by simp
  moreover have "fetchAllPatients (always_status 401) no_jitter start =
     (Inr (Patients []), issue (page_url (fst start) 1) (throttle start))"
    using b
      fetchAllPatients_error_gives_partial_result [where net = "always_status 401"
        and rnd = no_jitter and s = start and e = authentication_failed
        and l = "\<lparr> allPatients = [], page = 1, moreData = True \<rparr>"
        and ?s1.0 = "issue (page_url (fst start) 1) (throttle start)"
        and p = JNull and ps = "[]"]
    by simp
  moreover have "fetchAllPatients page_2_fails no_jitter start =
     (Inr (Patients (records 1 11)), issue (page_url (fst start) 1) (throttle start))"
    using c
      fetchAllPatients_error_gives_partial_result [where net = page_2_fails and rnd = no_jitter
        and s = start and p = "patient 1" and ps = "records 2 11"
        and l = "\<lparr> allPatients = [], page = 1, moreData = True \<rparr>"
        and e = authentication_failed
        and ?s1.0 = "issue (page_url (fst start) 1) (throttle start)"]
    by (simp add: records_1_11)
  ultimately show ?thesis using a b c by simp
qed

text \<open>
  C5, as the code has it. When the request for the first page is answered with status
  401 or 403, \<^verbatim>\<open>fetchWithRetries\<close> raises the authentication error to its caller, and
  the per-page \<^verbatim>\<open>catch\<close> of \<^verbatim>\<open>fetchAllPatients\<close> handles it like every other error:
  \<^verbatim>\<open>fetchAllPatients\<close> returns the accumulated records, here the empty list, and raises
  nothing.
\<close>

theorem fetchAllPatients_swallows_authentication_error:
  assumes "net (page_url (fst s) 1) (length (requests (snd s))) = Response status body"
    and "status = 401 \<or> status = 403"
  shows "fetchWithRetries net rnd (page_url (fst s) 1) 0 s =
           (Inl authentication_failed, issue (page_url (fst s) 1) (throttle s))
       \<and> fetchAllPatients net rnd s =
           (Inr (Patients []), issue (page_url (fst s) 1) (throttle s))"
proof -
  have f: "fetchWithRetries net rnd (page_url (fst s) 1) 0 s =
      (Inl authentication_failed, issue (page_url (fst s) 1) (throttle s))"
    using assms by (rule fetchWithRetries_auth)
  then show ?thesis by (simp add: fetchAllPatients_error)
qed

theorem fetchAllPatients_swallows_authentication_error_witness:
  "always_status 403 (page_url (fst start) 1) (length (requests (snd start))) =
     Response 403 (Inr JNull)
   \<and> fetchWithRetries (always_status 403) no_jitter (page_url (fst start) 1) 0 start =
       (Inl authentication_failed, issue (page_url (fst start) 1) (throttle start))
   \<and> fetchAllPatients (always_status 403) no_jitter start =
       (Inr (Patients []), issue (page_url (fst start) 1) (throttle start))"
  using fetchAllPatients_swallows_authentication_error [where net = "always_status 403"
      and s = start and status = 403 and body = "Inr JNull" and rnd = no_jitter]
  by (simp add: always_status_def)

text \<open>
  C5, as the specification states it, fails: with a transport that always answers 401,
  \<^verbatim>\<open>fetchWithRetries\<close> raises the authentication error for page 1, yet
  \<^verbatim>\<open>fetchAllPatients\<close> does not raise it; it returns the empty list.
\<close>

theorem authentication_error_does_not_propagate:
  "fst (fetchWithRetries (always_status 401) no_jitter (page_url (fst start) 1) 0 start) =
     Inl authentication_failed
   \<and> fst (fetchAllPatients (always_status 401) no_jitter start) \<noteq> Inl authentication_failed
   \<and> fst (fetchAllPatients (always_status 401) no_jitter start) = Inr (Patients [])"
  using fetch_always_401 [of "page_url (fst start) 1"]
  by (simp add: fetchAllPatients_error)

text \<open>
  C1, evaluated on the code. With pages of 10, 10 and 7 records and a page size of 10,
  \<^verbatim>\<open>fetchAllPatients\<close> returns the 10 records of page 1 after a single request: the
  statement \<^verbatim>\<open>return allPatients\<close> stands inside the \<^verbatim>\<open>while\<close> loop, so the loop
  never comes to page 2. The result is not the 27 records of the three pages.
\<close>

theorem fetchAllPatients_three_pages_returns_page_1:
  "fst (fetchAllPatients three_pages no_jitter start) = Inr (Patients (records 1 11))
   \<and> length (records 1 11) = 10
   \<and> requests (snd (snd (fetchAllPatients three_pages no_jitter start))) =
       [''https://api.example.test/patients?page=1&limit=10'']
   \<and> fst (fetchAllPatients three_pages no_jitter start) \<noteq>
       Inr (Patients (records 1 11 @ records 11 21 @ records 21 28))
   \<and> length (records 1 11 @ records 11 21 @ records 21 28) = 27"
proof -
  have "fetchWithRetries three_pages no_jitter (page_url (fst start) 1) 0 start =
      (Inr (JArr (patient 1 # records 2 11)), issue (page_url (fst start) 1) (throttle start))"
    by (rule fetchWithRetries_ok [where status = 200])
      (simp_all add: three_pages_def response_ok_def start_fields records_1_11)
  then have "fetchAllPatients three_pages no_jitter start =
      (Inr (Patients (records 1 11)), issue (page_url (fst start) 1) (throttle start))"
    by (simp add: fetchAllPatients_records records_1_11)
  moreover have "records 11 21 \<noteq> []"
    by (simp add: records_def)
  ultimately show ?thesis
    by (simp add: length_records start_fields page_url_demo)
qed

text \<open>
  C2, evaluated on the code. The transport answers 429 twice and then succeeds; the
  client has the default \<^verbatim>\<open>maxRetries\<close>. After the first 429 the code waits and calls
  the missing method \<^verbatim>\<open>fetchWithRetry\<close>; the \<^verbatim>\<open>TypeError\<close> lands in the \<^verbatim>\<open>catch\<close>
  block, which waits once more and calls the missing method again. The caller receives
  that \<^verbatim>\<open>TypeError\<close> after one request; no second or third request is made and no
  payload is returned.
\<close>

theorem fetchWithRetries_twice_429_raises:
  "fst (fetchWithRetries twice_429 no_jitter ''u'' 0 start) = Inl fetchWithRetry_not_a_function
   \<and> requests (snd (snd (fetchWithRetries twice_429 no_jitter ''u'' 0 start))) = [''u'']
   \<and> backoff_waits (snd (fetchWithRetries twice_429 no_jitter ''u'' 0 start)) = [1000, 1000]"
proof -
  have "fetchWithRetries twice_429 no_jitter ''u'' 0 start =
      (Inl fetchWithRetry_not_a_function,
       backoff_wait no_jitter 0 (backoff_wait no_jitter 0 (issue ''u'' (throttle start))))"
    by (rule fetchWithRetries_429 [where body = "Inr JNull"])
      (simp_all add: twice_429_def start_fields demo_client_fields)
  then show ?thesis
    by (simp add: start_fields backoff_waits_start getBackoffDelay_def demo_client_fields
        no_jitter_def)
qed

text \<open>
  C3, evaluated on the code. The transport always answers 503 and \<^verbatim>\<open>maxRetries\<close> is 5.
  The code issues one request, not six, and the error it raises is the \<^verbatim>\<open>TypeError\<close>
  of the missing method \<^verbatim>\<open>fetchWithRetry\<close>, which does not carry the status.
\<close>

theorem fetchWithRetries_always_503_raises:
  "maxRetries (fst start) = 5
   \<and> fst (fetchWithRetries (always_status 503) no_jitter ''u'' 0 start) =
       Inl fetchWithRetry_not_a_function
   \<and> fetchWithRetry_not_a_function \<noteq> request_failed 503
   \<and> requests (snd (snd (fetchWithRetries (always_status 503) no_jitter ''u'' 0 start))) = [''u'']
   \<and> backoff_waits (snd (fetchWithRetries (always_status 503) no_jitter ''u'' 0 start)) =
       [1000, 1000]"
proof -
  have "fetchWithRetries (always_status 503) no_jitter ''u'' 0 start =
      (Inl fetchWithRetry_not_a_function,
       backoff_wait no_jitter 0 (backoff_wait no_jitter 0 (issue ''u'' (throttle start))))"
    by (rule fetchWithRetries_5xx [where status = 503 and body = "Inr JNull"])
      (simp_all add: always_status_def start_fields demo_client_fields)
  then show ?thesis
    by (simp add: start_fields backoff_waits_start getBackoffDelay_def demo_client_fields
        no_jitter_def fetchWithRetry_not_a_function_def request_failed_def)
qed

text \<open>
  C7, evaluated on the code. Page 1 is an object that holds an array of 10 records and
  \<^verbatim>\<open>hasNext: false\<close>. The code tests \<^verbatim>\<open>Array.isArray\<close> on the payload itself, so it
  takes the \<^verbatim>\<open>else\<close> branch, leaves the loop by \<^verbatim>\<open>break\<close> and returns \<^verbatim>\<open>undefined\<close>;
  the 10 records are not appended.
\<close>

theorem fetchAllPatients_wrapped_page_undefined:
  "wrapped_page = JObj [(''data'', JArr (records 1 11)), (''hasNext'', JBool False)]
   \<and> int (length (records 1 11)) = pageSize (fst start)
   \<and> hasNext wrapped_page = Some (JBool False)
   \<and> fst (fetchAllPatients wrapped_last_page no_jitter start) = Inr Undefined
   \<and> fst (fetchAllPatients wrapped_last_page no_jitter start) \<noteq> Inr (Patients (records 1 11))"
proof -
  have "fetchWithRetries wrapped_last_page no_jitter (page_url (fst start) 1) 0 start =
      (Inr wrapped_page, issue (page_url (fst start) 1) (throttle start))"
    by (rule fetchWithRetries_ok [where status = 200])
      (simp_all add: wrapped_last_page_def response_ok_def)
  moreover have "\<not> nonempty_array wrapped_page"
    by (simp add: nonempty_array_def wrapped_page_def)
  ultimately have "fetchAllPatients wrapped_last_page no_jitter start =
      (Inr Undefined, issue (page_url (fst start) 1) (throttle start))"
    by (rule fetchAllPatients_break)
  then show ?thesis
    by (simp add: wrapped_page_def length_records start_fields demo_client_fields)
qed

end
